theory Spec2Isabelle
  imports Main "HOL-Library.Dlist"
begin

section \<open>The build descriptor \<open>setup.py\<close> of zubax_serial_updater\<close>

text \<open>
  The descriptor is a straight-line Python module: it picks a subsystem tag from
  \<open>sys.platform\<close>, globs the working directory for \<open>*.bin\<close>, raises when nothing
  matched, builds two option dictionaries and calls cx_Freeze's \<open>setup\<close> once.
  What the module reads from outside is its environment; what it does to the outside
  (the exception it raises, the calls of \<open>setup\<close> it makes) is its outcome.
\<close>

subsection \<open>Environment\<close>

text \<open>
  \<open>sys_platform\<close> is the string \<open>sys.platform\<close>. \<open>glob_glob\<close> is the library function
  \<open>glob.glob\<close> as the working directory answers it: pattern in, list of matching
  file names out. The library is not part of the repository, so its answer is an input.
\<close>

record environment =
  sys_platform :: string
  glob_glob :: "string \<Rightarrow> string list"

subsection \<open>Values\<close>

text \<open>The values the two option dictionaries hold: a bool, a str, a list of str.\<close>

datatype pyval = PyBool bool | PyStr string | PyList "string list"

text \<open>A dictionary with str keys. In a display \<open>[k \<mapsto> v, ...]\<close> a later key wins, as in Python.\<close>

type_synonym pydict = "string \<rightharpoonup> pyval"

datatype exception = Exception string

text \<open>
  The keyword arguments that \<open>Executable(script, base=, icon=, shortcutName=, shortcutDir=)\<close>
  is built from; \<open>base\<close> is a str or \<open>None\<close>.
\<close>

record executable =
  exe_script :: string
  exe_base :: "string option"
  exe_icon :: string
  exe_shortcutName :: string
  exe_shortcutDir :: string

text \<open>The keyword arguments of the call \<open>setup(name=..., ..., executables=[...])\<close>.\<close>

record setup_args =
  name :: string
  version :: string
  description :: string
  requires :: "string list"
  author :: string
  author_email :: string
  url :: string
  license :: string
  options :: "string \<rightharpoonup> pydict"
  executables :: "executable list"

text \<open>
  What one run of the module does: the exception that ended it, if any, and the calls
  of \<open>setup\<close> it made, in order.
\<close>

record outcome =
  raised :: "exception option"
  setup_calls :: "setup_args list"

subsection \<open>The module\<close>

text \<open>\<^verbatim>\<open>base = 'Win32GUI' if sys.platform == 'win32' else None\<close>\<close>

definition base :: "string \<Rightarrow> string option" where
  "base platform = (if platform = ''win32'' then Some ''Win32GUI'' else None)"

text \<open>\<^verbatim>\<open>binaries = glob.glob('*.bin')\<close>\<close>

definition binaries :: "environment \<Rightarrow> string list" where
  "binaries env = glob_glob env ''*.bin''"

text \<open>
  \<^verbatim>\<open>build_exe_options = {'packages': ['serial', 'tkinter'], 'include_msvcr': True,
                       'include_files': binaries}\<close>
\<close>

definition build_exe_options :: "string list \<Rightarrow> pydict" where
  "build_exe_options bins =
     [''packages'' \<mapsto> PyList [''serial'', ''tkinter''],
      ''include_msvcr'' \<mapsto> PyBool True,
      ''include_files'' \<mapsto> PyList bins]"

text \<open>
  \<^verbatim>\<open>bdist_msi_options = {'initial_target_dir': r'[ProgramFilesFolder]\Zubax\serial_updater'}\<close>
  The literal is a raw string: each backslash is one character, code 0x5C.
\<close>

definition bdist_msi_options :: pydict where
  "bdist_msi_options =
     [''initial_target_dir'' \<mapsto>
        PyStr (''[ProgramFilesFolder]'' @ CHR 0x5C # ''Zubax'' @ CHR 0x5C # ''serial_updater'')]"

text \<open>The argument list of the one \<open>setup(...)\<close> call, from the module's globals.\<close>

definition setup_kwargs :: "string option \<Rightarrow> pydict \<Rightarrow> pydict \<Rightarrow> setup_args" where
  "setup_kwargs b build_exe bdist_msi =
     \<lparr>name = ''zubax_serial_updater'',
      version = ''1.0'',
      description = ''Zubax serial firmware updater'',
      requires = [''serial''],
      author = ''Pavel Kirienko'',
      author_email = ''pavel.kirienko@zubax.com'',
      url = ''http://zubax.com'',
      license = ''MIT'',
      options = [''build_exe'' \<mapsto> build_exe, ''bdist_msi'' \<mapsto> bdist_msi],
      executables =
        [\<lparr>exe_script = ''zubax_serial_updater'',
          exe_base = b,
          exe_icon = ''icon.ico'',
          exe_shortcutName = ''Zubax Serial Updater'',
          exe_shortcutDir = ''ProgramMenuFolder''\<rparr>]\<rparr>"

text \<open>
  The module body, top to bottom. The \<open>raise\<close> ends the run before the dictionaries
  are built and before \<open>setup\<close> is called.
\<close>

definition setup_py :: "environment \<Rightarrow> outcome" where
  "setup_py env =
     (let b = base (sys_platform env);
          bins = binaries env
      in if length bins = 0
         then \<lparr>raised = Some (Exception ''Could not find binaries''), setup_calls = []\<rparr>
         else \<lparr>raised = None,
               setup_calls = [setup_kwargs b (build_exe_options bins) bdist_msi_options]\<rparr>)"

text \<open>Python's \<open>kwargs['options'][cmd][key]\<close>, with \<open>None\<close> for a missing key.\<close>

definition option_of :: "setup_args \<Rightarrow> string \<Rightarrow> string \<Rightarrow> pyval option" where
  "option_of call cmd key = (case options call cmd of None \<Rightarrow> None | Some d \<Rightarrow> d key)"

text \<open>A directory in which \<open>*.bin\<close> matches the given names and no other pattern matches.\<close>

definition dir_with :: "string \<Rightarrow> string list \<Rightarrow> environment" where
  "dir_with platform bins =
     \<lparr>sys_platform = platform, glob_glob = (\<lambda>pat. if pat = ''*.bin'' then bins else [])\<rparr>"

subsection \<open>The working directory\<close>

text \<open>
  Modelled from the spec: \<open>glob.glob\<close> is library code and is not in the repository.
  The spec's operation "discover payload files" takes "a filename glob pattern over the
  current working directory" and gives "the matched file list", the "set of matching
  files". So the glob answers with the entries of the working directory that match
  the pattern, in the order the directory lists them.

  A directory holds a name once, so its listing (\<open>os.scandir\<close>) is a list without
  repetition, a \<open>dlist\<close>. Whether a name matches a pattern is the library's to say
  (\<open>fnmatch\<close>, with the platform's case rule, and hidden names left out): it is taken
  as given, name first and pattern second.
\<close>

record working_directory =
  scandir :: "string dlist"
  fnmatch :: "string \<Rightarrow> string \<Rightarrow> bool"

definition glob_over :: "working_directory \<Rightarrow> string \<Rightarrow> string list" where
  "glob_over d pat = filter (\<lambda>n. fnmatch d n pat) (list_of_dlist (scandir d))"

text \<open>The environment of a run started in directory \<open>d\<close> on the given platform.\<close>

definition run_in :: "string \<Rightarrow> working_directory \<Rightarrow> environment" where
  "run_in platform d = \<lparr>sys_platform = platform, glob_glob = glob_over d\<rparr>"

text \<open>
  An example directory with the given entries, matched as on POSIX for the one pattern
  \<open>*.bin\<close>: the name ends in \<open>.bin\<close> and does not start with a dot.
\<close>

definition star_bin :: "string \<Rightarrow> bool" where
  "star_bin n = (take 4 (rev n) = rev ''.bin'' \<and> take 1 n \<noteq> ''.'')"

definition posix_dir :: "string list \<Rightarrow> working_directory" where
  "posix_dir names =
     \<lparr>scandir = foldr Dlist.insert names Dlist.empty,
      fnmatch = (\<lambda>n pat. pat = ''*.bin'' \<and> star_bin n)\<rparr>"

subsection \<open>The module with library calls that can raise\<close>

text \<open>
  \<open>setup_py\<close> above follows a run in which every library operation returns. The
  operations of the module that run library code are its four imports and the calls
  \<open>Executable(...)\<close> and \<open>setup(...)\<close>; each of them can raise instead. What they
  do is the library's: for each operation, the exception it raises (class name and
  message), if any. (\<open>glob.glob\<close> answers an unreadable directory with the empty list
  and \<open>sys.platform\<close> is an attribute read; they stay as above.)
\<close>

datatype lib_exception = LibException string string

record library =
  import_error :: "string \<Rightarrow> lib_exception option"
  Executable_error :: "executable \<Rightarrow> lib_exception option"
  setup_error :: "setup_args \<Rightarrow> lib_exception option"

text \<open>
  How a run can end with an exception: inside an import, at the module's own
  \<open>raise\<close>, inside \<open>Executable(...)\<close>, or inside \<open>setup(...)\<close>.
\<close>

datatype failure =
    Import_failed string lib_exception
  | Guard_raised exception
  | Executable_failed lib_exception
  | Setup_failed lib_exception

record run =
  ended_with :: "failure option"
  Executable_calls :: "executable list"
  setup_calls_made :: "setup_args list"

text \<open>
  \<^verbatim>\<open>import sys\<close>, \<^verbatim>\<open>import glob\<close>, \<^verbatim>\<open>from distutils.core import setup\<close>,
  \<^verbatim>\<open>from cx_Freeze import setup, Executable\<close>: the modules, in the order of the
  statements. The first import that raises ends the run.
\<close>

definition import_statements :: "string list" where
  "import_statements = [''sys'', ''glob'', ''distutils.core'', ''cx_Freeze'']"

fun import_all :: "library \<Rightarrow> string list \<Rightarrow> failure option" where
  "import_all lib [] = None"
| "import_all lib (m # ms) =
     (case import_error lib m of
        Some e \<Rightarrow> Some (Import_failed m e)
      | None \<Rightarrow> import_all lib ms)"

text \<open>The arguments of the one \<open>Executable(...)\<close> call, as \<open>setup_kwargs\<close> has them.\<close>

definition Executable_kwargs :: "string option \<Rightarrow> executable" where
  "Executable_kwargs b =
     \<lparr>exe_script = ''zubax_serial_updater'',
      exe_base = b,
      exe_icon = ''icon.ico'',
      exe_shortcutName = ''Zubax Serial Updater'',
      exe_shortcutDir = ''ProgramMenuFolder''\<rparr>"

text \<open>
  The module body again, every library operation in its place. The arguments of
  \<open>setup(...)\<close> are evaluated before the call, so \<open>Executable(...)\<close> runs first.
\<close>

definition setup_py_with :: "library \<Rightarrow> environment \<Rightarrow> run" where
  "setup_py_with lib env =
     (case import_all lib import_statements of
        Some f \<Rightarrow> \<lparr>ended_with = Some f, Executable_calls = [], setup_calls_made = []\<rparr>
      | None \<Rightarrow>
         (let b = base (sys_platform env);
              bins = binaries env
          in if length bins = 0
             then \<lparr>ended_with = Some (Guard_raised (Exception ''Could not find binaries'')),
                   Executable_calls = [], setup_calls_made = []\<rparr>
             else
               (let build_exe = build_exe_options bins;
                    exe = Executable_kwargs b;
                    kwargs = setup_kwargs b build_exe bdist_msi_options
                in case Executable_error lib exe of
                     Some e \<Rightarrow> \<lparr>ended_with = Some (Executable_failed e),
                                Executable_calls = [exe], setup_calls_made = []\<rparr>
                   | None \<Rightarrow>
                      (case setup_error lib kwargs of
                         Some e \<Rightarrow> \<lparr>ended_with = Some (Setup_failed e),
                                    Executable_calls = [exe], setup_calls_made = [kwargs]\<rparr>
                       | None \<Rightarrow> \<lparr>ended_with = None,
                                  Executable_calls = [exe], setup_calls_made = [kwargs]\<rparr>))))"

text \<open>
  Two example libraries: one whose operations all return, and one whose
  \<open>Executable\<close> does not take the keyword \<open>shortcutName\<close> and raises \<open>TypeError\<close>.
\<close>

definition returning :: library where
  "returning =
     \<lparr>import_error = (\<lambda>m. None), Executable_error = (\<lambda>x. None), setup_error = (\<lambda>k. None)\<rparr>"

definition rejecting_shortcutName :: library where
  "rejecting_shortcutName =
     returning\<lparr>Executable_error :=
       (\<lambda>x. Some (LibException ''TypeError'' ''unexpected keyword argument shortcutName''))\<rparr>"

section \<open>Properties\<close>

subsection \<open>The two paths of the module\<close>

lemma setup_py_empty:
  assumes "glob_glob env ''*.bin'' = []"
  shows "setup_py env = \<lparr>raised = Some (Exception ''Could not find binaries''), setup_calls = []\<rparr>"
  using assms by (simp add: setup_py_def binaries_def)

lemma setup_py_nonempty:
  assumes "glob_glob env ''*.bin'' \<noteq> []"
  shows "setup_py env =
    \<lparr>raised = None,
     setup_calls = [setup_kwargs (base (sys_platform env))
                      (build_exe_options (glob_glob env ''*.bin'')) bdist_msi_options]\<rparr>"
  using assms by (simp add: setup_py_def binaries_def)

lemma glob_dir_with: "glob_glob (dir_with p bins) ''*.bin'' = bins"
  by (simp add: dir_with_def)

lemma option_of_build_exe:
  "option_of (setup_kwargs b d m) ''build_exe'' key = d key"
  by (simp add: option_of_def setup_kwargs_def)

lemma option_of_bdist_msi:
  "option_of (setup_kwargs b d m) ''bdist_msi'' key = m key"
  by (simp add: option_of_def setup_kwargs_def)

subsection \<open>The glob over a directory\<close>

lemma glob_glob_run_in: "glob_glob (run_in p d) pat = glob_over d pat"
  by (simp add: run_in_def)

lemma distinct_glob_over: "distinct (glob_over d pat)"
  by (simp add: glob_over_def)

lemma set_glob_over:
  "set (glob_over d pat) = {n \<in> set (list_of_dlist (scandir d)). fnmatch d n pat}"
  by (simp add: glob_over_def)

lemma glob_over_nonempty:
  assumes "n \<in> set (list_of_dlist (scandir d))" and "fnmatch d n pat"
  shows "glob_over d pat \<noteq> []"
proof -
  from assms have "n \<in> set (glob_over d pat)"
    by (simp add: set_glob_over)
  then show ?thesis by auto
qed

subsection \<open>Runs with a library that can raise\<close>

lemma executables_setup_kwargs: "executables (setup_kwargs b d m) = [Executable_kwargs b]"
  by (simp add: setup_kwargs_def Executable_kwargs_def)

lemma import_all_failure:
  "import_all lib ms = Some f \<Longrightarrow> \<exists>m e. m \<in> set ms \<and> import_error lib m = Some e \<and> f = Import_failed m e"
proof (induction ms)
  case Nil
  then show ?case by simp
next
  case (Cons m ms)
  show ?case
  proof (cases "import_error lib m")
    case None
    with Cons show ?thesis by auto
  next
    case (Some e)
    with Cons.prems show ?thesis by auto
  qed
qed

lemma setup_py_with_import_failed:
  assumes "import_all lib import_statements = Some f"
  shows "setup_py_with lib env = \<lparr>ended_with = Some f, Executable_calls = [], setup_calls_made = []\<rparr>"
  using assms by (simp add: setup_py_with_def)

lemma setup_py_with_guard:
  assumes "import_all lib import_statements = None" and "glob_glob env ''*.bin'' = []"
  shows "setup_py_with lib env =
    \<lparr>ended_with = Some (Guard_raised (Exception ''Could not find binaries'')),
     Executable_calls = [], setup_calls_made = []\<rparr>"
  using assms by (simp add: setup_py_with_def binaries_def)

lemma setup_py_with_passed:
  assumes "import_all lib import_statements = None" and "glob_glob env ''*.bin'' \<noteq> []"
  shows "setup_py_with lib env =
    (let exe = Executable_kwargs (base (sys_platform env));
         kwargs = setup_kwargs (base (sys_platform env))
                    (build_exe_options (glob_glob env ''*.bin'')) bdist_msi_options
     in case Executable_error lib exe of
          Some e \<Rightarrow> \<lparr>ended_with = Some (Executable_failed e),
                     Executable_calls = [exe], setup_calls_made = []\<rparr>
        | None \<Rightarrow>
           (case setup_error lib kwargs of
              Some e \<Rightarrow> \<lparr>ended_with = Some (Setup_failed e),
                         Executable_calls = [exe], setup_calls_made = [kwargs]\<rparr>
            | None \<Rightarrow> \<lparr>ended_with = None,
                       Executable_calls = [exe], setup_calls_made = [kwargs]\<rparr>))"
  using assms by (simp add: setup_py_with_def binaries_def Let_def)

text \<open>With a library whose calls all return, the run is the one \<open>setup_py\<close> describes.\<close>

lemma setup_py_with_returning:
  assumes "import_all lib import_statements = None"
    and "\<forall>x. Executable_error lib x = None" and "\<forall>k. setup_error lib k = None"
  shows "ended_with (setup_py_with lib env) = map_option Guard_raised (raised (setup_py env))"
    and "setup_calls_made (setup_py_with lib env) = setup_calls (setup_py env)"
    and "Executable_calls (setup_py_with lib env) = concat (map executables (setup_calls (setup_py env)))"
proof -
  show "ended_with (setup_py_with lib env) = map_option Guard_raised (raised (setup_py env))"
  proof (cases "glob_glob env ''*.bin'' = []")
    case True
    then show ?thesis by (simp add: setup_py_with_guard assms(1) setup_py_empty)
  next
    case False
    then show ?thesis by (simp add: setup_py_with_passed assms setup_py_nonempty)
  qed
  show "setup_calls_made (setup_py_with lib env) = setup_calls (setup_py env)"
  proof (cases "glob_glob env ''*.bin'' = []")
    case True
    then show ?thesis by (simp add: setup_py_with_guard assms(1) setup_py_empty)
  next
    case False
    then show ?thesis by (simp add: setup_py_with_passed assms setup_py_nonempty)
  qed
  show "Executable_calls (setup_py_with lib env) = concat (map executables (setup_calls (setup_py env)))"
  proof (cases "glob_glob env ''*.bin'' = []")
    case True
    then show ?thesis by (simp add: setup_py_with_guard assms(1) setup_py_empty)
  next
    case False
    then show ?thesis
      by (simp add: setup_py_with_passed assms setup_py_nonempty executables_setup_kwargs)
  qed
qed

subsection \<open>The payload guard\<close>

text \<open>
  C1. When \<open>glob.glob('*.bin')\<close> returns no file, the run ends with the exception
  \<open>Exception('Could not find binaries')\<close> and \<open>setup\<close> has not been called.
  Put the other way round: in every call of \<open>setup\<close> the module makes, the
  \<open>include_files\<close> list of the \<open>build_exe\<close> options is non-empty.
\<close>

theorem no_binaries_raises_before_setup:
  "(glob_glob env ''*.bin'' = [] \<longrightarrow>
      raised (setup_py env) = Some (Exception ''Could not find binaries'') \<and>
      setup_calls (setup_py env) = [])
   \<and> (\<forall>call \<in> set (setup_calls (setup_py env)).
        \<exists>fs. option_of call ''build_exe'' ''include_files'' = Some (PyList fs) \<and> fs \<noteq> [])"
proof (cases "glob_glob env ''*.bin'' = []")
  case True
  then show ?thesis by (simp add: setup_py_empty)
next
  case False
  then show ?thesis
    by (simp add: setup_py_nonempty option_of_build_exe build_exe_options_def)
qed

theorem no_binaries_raises_before_setup_witness:
  "glob_glob (dir_with ''win32'' []) ''*.bin'' = [] \<and>
   raised (setup_py (dir_with ''win32'' [])) = Some (Exception ''Could not find binaries'') \<and>
   setup_calls (setup_py (dir_with ''win32'' [])) = [] \<and>
   setup_calls (setup_py (dir_with ''win32'' [''fw.bin''])) \<noteq> [] \<and>
   (\<exists>fs. option_of (hd (setup_calls (setup_py (dir_with ''win32'' [''fw.bin''])))) ''build_exe''
           ''include_files'' = Some (PyList fs) \<and> fs \<noteq> [])"
proof -
  have e: "glob_glob (dir_with ''win32'' []) ''*.bin'' = []"
    by (simp add: dir_with_def)
  have n: "setup_calls (setup_py (dir_with ''win32'' [''fw.bin''])) \<noteq> []"
    by (simp add: setup_py_def binaries_def dir_with_def)
  then have m: "hd (setup_calls (setup_py (dir_with ''win32'' [''fw.bin''])))
      \<in> set (setup_calls (setup_py (dir_with ''win32'' [''fw.bin''])))"
    by (rule hd_in_set)
  from no_binaries_raises_before_setup [of "dir_with ''win32'' []"] e
       no_binaries_raises_before_setup [of "dir_with ''win32'' [''fw.bin'']"] n m
  show ?thesis by blast
qed

text \<open>
  C2. When the glob matches at least one file, the module calls \<open>setup\<close> once and the
  \<open>include_files\<close> entry of the build options is the list \<open>glob.glob('*.bin')\<close>
  returned, unchanged. For a run in a working directory with at least one entry that
  matches \<open>*.bin\<close>, on any platform, this list holds exactly the entries of the
  directory that match (none left out, none added) and holds none of them twice.
\<close>

theorem include_files_is_glob_result:
  "(glob_glob env ''*.bin'' \<noteq> [] \<longrightarrow>
      (\<exists>call. setup_calls (setup_py env) = [call] \<and>
         option_of call ''build_exe'' ''include_files'' = Some (PyList (glob_glob env ''*.bin''))))
   \<and> ((\<exists>n. n \<in> set (list_of_dlist (scandir d)) \<and> fnmatch d n ''*.bin'') \<longrightarrow>
      (\<exists>call fs. setup_calls (setup_py (run_in p d)) = [call] \<and>
         option_of call ''build_exe'' ''include_files'' = Some (PyList fs) \<and>
         set fs = {n \<in> set (list_of_dlist (scandir d)). fnmatch d n ''*.bin''} \<and>
         distinct fs))"
proof (intro conjI impI)
  assume ne: "glob_glob env ''*.bin'' \<noteq> []"
  show "\<exists>call. setup_calls (setup_py env) = [call] \<and>
         option_of call ''build_exe'' ''include_files'' = Some (PyList (glob_glob env ''*.bin''))"
    by (simp add: setup_py_nonempty [OF ne] option_of_build_exe build_exe_options_def)
next
  assume "\<exists>n. n \<in> set (list_of_dlist (scandir d)) \<and> fnmatch d n ''*.bin''"
  then obtain n where "n \<in> set (list_of_dlist (scandir d))" and "fnmatch d n ''*.bin''"
    by blast
  then have "glob_over d ''*.bin'' \<noteq> []"
    by (rule glob_over_nonempty)
  then have ne: "glob_glob (run_in p d) ''*.bin'' \<noteq> []"
    by (simp add: glob_glob_run_in)
  let ?fs = "glob_over d ''*.bin''"
  let ?call = "setup_kwargs (base (sys_platform (run_in p d))) (build_exe_options ?fs) bdist_msi_options"
  have c: "setup_calls (setup_py (run_in p d)) = [?call]"
    by (simp add: setup_py_nonempty [OF ne] glob_glob_run_in)
  have f: "option_of ?call ''build_exe'' ''include_files'' = Some (PyList ?fs)"
    by (simp add: option_of_build_exe build_exe_options_def)
  from c f set_glob_over [of d "''*.bin''"] distinct_glob_over [of d "''*.bin''"]
  show "\<exists>call fs. setup_calls (setup_py (run_in p d)) = [call] \<and>
         option_of call ''build_exe'' ''include_files'' = Some (PyList fs) \<and>
         set fs = {n \<in> set (list_of_dlist (scandir d)). fnmatch d n ''*.bin''} \<and>
         distinct fs"
    by (intro exI [of _ ?call] exI [of _ ?fs] conjI)
qed

theorem include_files_is_glob_result_witness:
  "glob_glob (dir_with ''linux'' [''a.bin'', ''b.bin'']) ''*.bin'' \<noteq> [] \<and>
   (\<exists>call. setup_calls (setup_py (dir_with ''linux'' [''a.bin'', ''b.bin''])) = [call] \<and>
      option_of call ''build_exe'' ''include_files'' = Some (PyList [''a.bin'', ''b.bin''])) \<and>
   ''a.bin'' \<in> set (list_of_dlist (scandir (posix_dir [''a.bin'', ''README.txt'', ''b.bin'', ''.c.bin'']))) \<and>
   fnmatch (posix_dir [''a.bin'', ''README.txt'', ''b.bin'', ''.c.bin'']) ''a.bin'' ''*.bin'' \<and>
   (\<exists>call fs.
      setup_calls (setup_py (run_in ''linux''
        (posix_dir [''a.bin'', ''README.txt'', ''b.bin'', ''.c.bin'']))) = [call] \<and>
      option_of call ''build_exe'' ''include_files'' = Some (PyList fs) \<and>
      set fs = {''a.bin'', ''b.bin''} \<and> distinct fs)"
proof -
  let ?env = "dir_with ''linux'' [''a.bin'', ''b.bin'']"
  let ?d = "posix_dir [''a.bin'', ''README.txt'', ''b.bin'', ''.c.bin'']"
  have g: "glob_glob ?env ''*.bin'' = [''a.bin'', ''b.bin'']"
    by (rule glob_dir_with)
  then have n: "glob_glob ?env ''*.bin'' \<noteq> []"
    by simp
  have a: "''a.bin'' \<in> set (list_of_dlist (scandir ?d))"
    by (simp add: posix_dir_def)
  have m: "fnmatch ?d ''a.bin'' ''*.bin''"
    by (simp add: posix_dir_def star_bin_def)
  have s: "{n \<in> set (list_of_dlist (scandir ?d)). fnmatch ?d n ''*.bin''} = {''a.bin'', ''b.bin''}"
  proof -
    have "filter (\<lambda>n. fnmatch ?d n ''*.bin'') (list_of_dlist (scandir ?d)) = [''a.bin'', ''b.bin'']"
      by (simp add: posix_dir_def star_bin_def)
    then have "set (filter (\<lambda>n. fnmatch ?d n ''*.bin'') (list_of_dlist (scandir ?d))) = {''a.bin'', ''b.bin''}"
      by simp
    then show ?thesis
      by (simp only: set_filter)
  qed
  from a m have ex: "\<exists>n. n \<in> set (list_of_dlist (scandir ?d)) \<and> fnmatch ?d n ''*.bin''"
    by blast
  note first = include_files_is_glob_result [of ?env, THEN conjunct1, THEN mp, OF n]
  note second = include_files_is_glob_result [of _ ?d "''linux''", THEN conjunct2, THEN mp, OF ex]
  from first have f: "\<exists>call. setup_calls (setup_py ?env) = [call] \<and>
      option_of call ''build_exe'' ''include_files'' = Some (PyList [''a.bin'', ''b.bin''])"
    by (simp only: g)
  from second have t: "\<exists>call fs. setup_calls (setup_py (run_in ''linux'' ?d)) = [call] \<and>
      option_of call ''build_exe'' ''include_files'' = Some (PyList fs) \<and>
      set fs = {''a.bin'', ''b.bin''} \<and> distinct fs"
    by (simp only: s)
  from n f a m t show ?thesis by (intro conjI)
qed

subsection \<open>Subsystem selection\<close>

text \<open>
  C3. \<open>base\<close> is a function of the platform string alone: \<open>'win32'\<close> gives
  \<open>'Win32GUI'\<close>, every other string gives \<open>None\<close>. The comparison is Python's
  string equality, so it is case sensitive.
\<close>

theorem base_selects_subsystem:
  "base ''win32'' = Some ''Win32GUI'' \<and> (\<forall>p. p \<noteq> ''win32'' \<longrightarrow> base p = None)"
proof (intro conjI allI impI)
  show "base ''win32'' = Some ''Win32GUI''"
    by (simp add: base_def)
next
  fix p :: string
  assume "p \<noteq> ''win32''"
  then show "base p = None"
    by (simp add: base_def)
qed

theorem base_selects_subsystem_witness:
  "''linux'' \<noteq> ''win32'' \<and> base ''linux'' = None \<and>
   ''Win32'' \<noteq> ''win32'' \<and> base ''Win32'' = None \<and>
   base ''win32'' = Some ''Win32GUI''"
proof -
  have a: "''linux'' \<noteq> ''win32''" by simp
  have b: "''Win32'' \<noteq> ''win32''" by simp
  note others = base_selects_subsystem [THEN conjunct2, THEN spec, THEN mp]
  show ?thesis
    using a b others [OF a] others [OF b] base_selects_subsystem [THEN conjunct1]
    by (intro conjI)
qed

subsection \<open>The fixed parts of the configuration\<close>

text \<open>
  C4. The dependency list of the build options, \<open>packages\<close>, is \<open>['serial', 'tkinter']\<close>
  whatever the payload list and the platform are, and so it is in the one call of
  \<open>setup\<close> of a run that passes the guard. The \<open>requires\<close> list of the metadata names
  no package outside these two.
\<close>

theorem packages_are_serial_and_tkinter:
  "build_exe_options bins ''packages'' = Some (PyList [''serial'', ''tkinter'']) \<and>
   (glob_glob env ''*.bin'' \<noteq> [] \<longrightarrow>
      (\<exists>call. setup_calls (setup_py env) = [call] \<and>
         option_of call ''build_exe'' ''packages'' = Some (PyList [''serial'', ''tkinter'']) \<and>
         set (requires call) \<subseteq> {''serial'', ''tkinter''}))"
proof (intro conjI impI)
  show "build_exe_options bins ''packages'' = Some (PyList [''serial'', ''tkinter''])"
    by (simp add: build_exe_options_def)
next
  assume ne: "glob_glob env ''*.bin'' \<noteq> []"
  let ?call = "setup_kwargs (base (sys_platform env))
                 (build_exe_options (glob_glob env ''*.bin'')) bdist_msi_options"
  have "setup_calls (setup_py env) = [?call]"
    by (simp add: setup_py_nonempty [OF ne])
  moreover have "option_of ?call ''build_exe'' ''packages'' = Some (PyList [''serial'', ''tkinter''])"
    by (simp add: option_of_build_exe build_exe_options_def)
  moreover have "set (requires ?call) \<subseteq> {''serial'', ''tkinter''}"
    by (simp add: setup_kwargs_def)
  ultimately show "\<exists>call. setup_calls (setup_py env) = [call] \<and>
         option_of call ''build_exe'' ''packages'' = Some (PyList [''serial'', ''tkinter'']) \<and>
         set (requires call) \<subseteq> {''serial'', ''tkinter''}"
    by (intro exI [of _ ?call] conjI)
qed

theorem packages_are_serial_and_tkinter_witness:
  "glob_glob (dir_with ''darwin'' [''x.bin'', ''y.bin'', ''z.bin'']) ''*.bin'' \<noteq> [] \<and>
   (\<exists>call. setup_calls (setup_py (dir_with ''darwin'' [''x.bin'', ''y.bin'', ''z.bin''])) = [call] \<and>
      option_of call ''build_exe'' ''packages'' = Some (PyList [''serial'', ''tkinter'']) \<and>
      set (requires call) \<subseteq> {''serial'', ''tkinter''})"
proof -
  have ne: "glob_glob (dir_with ''darwin'' [''x.bin'', ''y.bin'', ''z.bin'']) ''*.bin'' \<noteq> []"
    by (simp add: glob_dir_with)
  from packages_are_serial_and_tkinter [THEN conjunct2, THEN mp, OF ne] ne
  show ?thesis by (intro conjI)
qed

text \<open>
  C5. When the glob returns exactly \<open>['firmware_v1.bin']\<close>, the run raises nothing and
  the build options' \<open>include_files\<close> list is \<open>['firmware_v1.bin']\<close>.
\<close>

theorem firmware_v1_scenario:
  assumes "glob_glob env ''*.bin'' = [''firmware_v1.bin'']"
  shows "raised (setup_py env) = None \<and>
         (\<exists>call. setup_calls (setup_py env) = [call] \<and>
            option_of call ''build_exe'' ''include_files'' = Some (PyList [''firmware_v1.bin'']))"
proof -
  from assms have ne: "glob_glob env ''*.bin'' \<noteq> []" by simp
  show ?thesis
    unfolding setup_py_nonempty [OF ne]
    by (simp add: option_of_build_exe build_exe_options_def assms)
qed

theorem firmware_v1_scenario_witness:
  "glob_glob (dir_with ''win32'' [''firmware_v1.bin'']) ''*.bin'' = [''firmware_v1.bin''] \<and>
   raised (setup_py (dir_with ''win32'' [''firmware_v1.bin''])) = None \<and>
   (\<exists>call. setup_calls (setup_py (dir_with ''win32'' [''firmware_v1.bin''])) = [call] \<and>
      option_of call ''build_exe'' ''include_files'' = Some (PyList [''firmware_v1.bin'']))"
proof -
  have g: "glob_glob (dir_with ''win32'' [''firmware_v1.bin'']) ''*.bin'' = [''firmware_v1.bin'']"
    by (rule glob_dir_with)
  from g firmware_v1_scenario [OF g] show ?thesis by (intro conjI) simp_all
qed

text \<open>
  C6. The guard is the only place where the module itself raises. Whatever the
  library does, a run that ends with an exception ends either at the guard, with
  \<open>Exception('Could not find binaries')\<close> and an empty glob answer, or with the
  exception that an import, \<open>Executable(...)\<close> or \<open>setup(...)\<close> raised, passed on
  as it is. Once the imports are done and the glob has matched a file, the run does
  not end at the guard; \<open>Executable(...)\<close> is called, once; if it returns,
  \<open>setup(...)\<close> is called, once, with the assembled arguments; and if that returns,
  the run ends without an exception.
\<close>

theorem descriptor_raises_only_at_guard:
  "(\<forall>f. ended_with (setup_py_with lib env) = Some f \<longrightarrow>
      (f = Guard_raised (Exception ''Could not find binaries'') \<and> glob_glob env ''*.bin'' = []) \<or>
      (\<exists>m e. m \<in> set import_statements \<and> import_error lib m = Some e \<and> f = Import_failed m e) \<or>
      (\<exists>e. Executable_error lib (Executable_kwargs (base (sys_platform env))) = Some e \<and>
           f = Executable_failed e) \<or>
      (\<exists>e. setup_error lib (setup_kwargs (base (sys_platform env))
                (build_exe_options (glob_glob env ''*.bin'')) bdist_msi_options) = Some e \<and>
           f = Setup_failed e)) \<and>
   (import_all lib import_statements = None \<and> glob_glob env ''*.bin'' \<noteq> [] \<longrightarrow>
      (\<forall>e. ended_with (setup_py_with lib env) \<noteq> Some (Guard_raised e)) \<and>
      Executable_calls (setup_py_with lib env) = [Executable_kwargs (base (sys_platform env))] \<and>
      (\<forall>e. Executable_error lib (Executable_kwargs (base (sys_platform env))) = Some e \<longrightarrow>
         ended_with (setup_py_with lib env) = Some (Executable_failed e) \<and>
         setup_calls_made (setup_py_with lib env) = []) \<and>
      (Executable_error lib (Executable_kwargs (base (sys_platform env))) = None \<longrightarrow>
         setup_calls_made (setup_py_with lib env) =
           [setup_kwargs (base (sys_platform env))
              (build_exe_options (glob_glob env ''*.bin'')) bdist_msi_options] \<and>
         (\<forall>e. setup_error lib (setup_kwargs (base (sys_platform env))
              (build_exe_options (glob_glob env ''*.bin'')) bdist_msi_options) = Some e \<longrightarrow>
            ended_with (setup_py_with lib env) = Some (Setup_failed e)) \<and>
         (setup_error lib (setup_kwargs (base (sys_platform env))
              (build_exe_options (glob_glob env ''*.bin'')) bdist_msi_options) = None \<longrightarrow>
            ended_with (setup_py_with lib env) = None)))"
proof (rule conjI)
  show "\<forall>f. ended_with (setup_py_with lib env) = Some f \<longrightarrow>
      (f = Guard_raised (Exception ''Could not find binaries'') \<and> glob_glob env ''*.bin'' = []) \<or>
      (\<exists>m e. m \<in> set import_statements \<and> import_error lib m = Some e \<and> f = Import_failed m e) \<or>
      (\<exists>e. Executable_error lib (Executable_kwargs (base (sys_platform env))) = Some e \<and>
           f = Executable_failed e) \<or>
      (\<exists>e. setup_error lib (setup_kwargs (base (sys_platform env))
                (build_exe_options (glob_glob env ''*.bin'')) bdist_msi_options) = Some e \<and>
           f = Setup_failed e)"
  proof (intro allI impI)
    fix f
    assume r: "ended_with (setup_py_with lib env) = Some f"
    show "(f = Guard_raised (Exception ''Could not find binaries'') \<and> glob_glob env ''*.bin'' = []) \<or>
      (\<exists>m e. m \<in> set import_statements \<and> import_error lib m = Some e \<and> f = Import_failed m e) \<or>
      (\<exists>e. Executable_error lib (Executable_kwargs (base (sys_platform env))) = Some e \<and>
           f = Executable_failed e) \<or>
      (\<exists>e. setup_error lib (setup_kwargs (base (sys_platform env))
                (build_exe_options (glob_glob env ''*.bin'')) bdist_msi_options) = Some e \<and>
           f = Setup_failed e)"
    proof (cases "import_all lib import_statements")
      case (Some g)
      with r have "g = f" by (simp add: setup_py_with_import_failed)
      with Some import_all_failure [of lib import_statements f] show ?thesis by blast
    next
      case None
      show ?thesis
      proof (cases "glob_glob env ''*.bin'' = []")
        case True
        with None r show ?thesis by (simp add: setup_py_with_guard)
      next
        case False
        with None r show ?thesis
          by (auto simp add: setup_py_with_passed Let_def split: option.splits)
      qed
    qed
  qed
next
  show "import_all lib import_statements = None \<and> glob_glob env ''*.bin'' \<noteq> [] \<longrightarrow>
      (\<forall>e. ended_with (setup_py_with lib env) \<noteq> Some (Guard_raised e)) \<and>
      Executable_calls (setup_py_with lib env) = [Executable_kwargs (base (sys_platform env))] \<and>
      (\<forall>e. Executable_error lib (Executable_kwargs (base (sys_platform env))) = Some e \<longrightarrow>
         ended_with (setup_py_with lib env) = Some (Executable_failed e) \<and>
         setup_calls_made (setup_py_with lib env) = []) \<and>
      (Executable_error lib (Executable_kwargs (base (sys_platform env))) = None \<longrightarrow>
         setup_calls_made (setup_py_with lib env) =
           [setup_kwargs (base (sys_platform env))
              (build_exe_options (glob_glob env ''*.bin'')) bdist_msi_options] \<and>
         (\<forall>e. setup_error lib (setup_kwargs (base (sys_platform env))
              (build_exe_options (glob_glob env ''*.bin'')) bdist_msi_options) = Some e \<longrightarrow>
            ended_with (setup_py_with lib env) = Some (Setup_failed e)) \<and>
         (setup_error lib (setup_kwargs (base (sys_platform env))
              (build_exe_options (glob_glob env ''*.bin'')) bdist_msi_options) = None \<longrightarrow>
            ended_with (setup_py_with lib env) = None))"
  proof (rule impI)
    assume "import_all lib import_statements = None \<and> glob_glob env ''*.bin'' \<noteq> []"
    then have p: "import_all lib import_statements = None" "glob_glob env ''*.bin'' \<noteq> []"
      by simp_all
    show "(\<forall>e. ended_with (setup_py_with lib env) \<noteq> Some (Guard_raised e)) \<and>
      Executable_calls (setup_py_with lib env) = [Executable_kwargs (base (sys_platform env))] \<and>
      (\<forall>e. Executable_error lib (Executable_kwargs (base (sys_platform env))) = Some e \<longrightarrow>
         ended_with (setup_py_with lib env) = Some (Executable_failed e) \<and>
         setup_calls_made (setup_py_with lib env) = []) \<and>
      (Executable_error lib (Executable_kwargs (base (sys_platform env))) = None \<longrightarrow>
         setup_calls_made (setup_py_with lib env) =
           [setup_kwargs (base (sys_platform env))
              (build_exe_options (glob_glob env ''*.bin'')) bdist_msi_options] \<and>
         (\<forall>e. setup_error lib (setup_kwargs (base (sys_platform env))
              (build_exe_options (glob_glob env ''*.bin'')) bdist_msi_options) = Some e \<longrightarrow>
            ended_with (setup_py_with lib env) = Some (Setup_failed e)) \<and>
         (setup_error lib (setup_kwargs (base (sys_platform env))
              (build_exe_options (glob_glob env ''*.bin'')) bdist_msi_options) = None \<longrightarrow>
            ended_with (setup_py_with lib env) = None))"
      unfolding setup_py_with_passed [OF p]
      by (simp add: Let_def split: option.splits)
  qed
qed

theorem descriptor_raises_only_at_guard_witness:
  "ended_with (setup_py_with returning (dir_with ''linux'' [])) =
     Some (Guard_raised (Exception ''Could not find binaries'')) \<and>
   glob_glob (dir_with ''linux'' []) ''*.bin'' = [] \<and>
   import_all returning import_statements = None \<and>
   glob_glob (dir_with ''linux'' [''fw.bin'']) ''*.bin'' \<noteq> [] \<and>
   Executable_error returning (Executable_kwargs (base (sys_platform (dir_with ''linux'' [''fw.bin''])))) = None \<and>
   Executable_calls (setup_py_with returning (dir_with ''linux'' [''fw.bin''])) = [Executable_kwargs None] \<and>
   length (setup_calls_made (setup_py_with returning (dir_with ''linux'' [''fw.bin'']))) = 1 \<and>
   ended_with (setup_py_with returning (dir_with ''linux'' [''fw.bin''])) = None \<and>
   import_all rejecting_shortcutName import_statements = None \<and>
   ended_with (setup_py_with rejecting_shortcutName (dir_with ''linux'' [''fw.bin''])) =
     Some (Executable_failed (LibException ''TypeError'' ''unexpected keyword argument shortcutName'')) \<and>
   setup_calls_made (setup_py_with rejecting_shortcutName (dir_with ''linux'' [''fw.bin''])) = []"
proof -
  let ?empty = "dir_with ''linux'' []"
  let ?env = "dir_with ''linux'' [''fw.bin'']"
  let ?exe = "Executable_kwargs (base (sys_platform ?env))"
  let ?kwargs = "setup_kwargs (base (sys_platform ?env))
                   (build_exe_options (glob_glob ?env ''*.bin'')) bdist_msi_options"
  have i: "import_all returning import_statements = None"
    by (simp add: returning_def import_statements_def)
  have j: "import_all rejecting_shortcutName import_statements = None"
    by (simp add: rejecting_shortcutName_def returning_def import_statements_def)
  have g: "glob_glob ?env ''*.bin'' \<noteq> []"
    by (simp add: glob_dir_with)
  have b: "base (sys_platform ?env) = None"
    by (simp add: base_def dir_with_def)
  have x: "Executable_error returning ?exe = None"
    by (simp add: returning_def)
  have s: "setup_error returning ?kwargs = None"
    by (simp add: returning_def)
  have t: "Executable_error rejecting_shortcutName ?exe =
      Some (LibException ''TypeError'' ''unexpected keyword argument shortcutName'')"
    by (simp add: rejecting_shortcutName_def)
  have r: "ended_with (setup_py_with returning ?empty) =
      Some (Guard_raised (Exception ''Could not find binaries''))"
    by (simp add: setup_py_with_guard i glob_dir_with)
  note at_guard = descriptor_raises_only_at_guard [of returning ?empty,
      THEN conjunct1, THEN spec, THEN mp, OF r]
  then have e: "glob_glob ?empty ''*.bin'' = []"
    by (simp add: returning_def)
  note ok = descriptor_raises_only_at_guard [of returning ?env,
      THEN conjunct2, THEN mp, OF conjI [OF i g]]
  note bad = descriptor_raises_only_at_guard [of rejecting_shortcutName ?env,
      THEN conjunct2, THEN mp, OF conjI [OF j g]]
  from ok have c: "Executable_calls (setup_py_with returning ?env) = [Executable_kwargs None]"
    by (simp add: b)
  from ok x have m: "setup_calls_made (setup_py_with returning ?env) = [?kwargs]"
    by simp
  then have l: "length (setup_calls_made (setup_py_with returning ?env)) = 1"
    by simp
  from ok x s have n: "ended_with (setup_py_with returning ?env) = None"
    by simp
  from bad t have f: "ended_with (setup_py_with rejecting_shortcutName ?env) =
      Some (Executable_failed (LibException ''TypeError'' ''unexpected keyword argument shortcutName'')) \<and>
    setup_calls_made (setup_py_with rejecting_shortcutName ?env) = []"
    by simp
  from r e i g x c l n j f show ?thesis by (intro conjI) simp_all
qed

text \<open>
  C7. In the call of \<open>setup\<close> of a run that passes the guard, the installer options set
  \<open>initial_target_dir\<close> to the fixed template \<open>[ProgramFilesFolder]\Zubax\serial_updater\<close>
  (41 characters, each backslash one character): the vendor directory \<open>Zubax\<close> under
  the program-files folder, whatever the platform and the payload are.
\<close>

theorem initial_target_dir_is_vendor_path:
  assumes "glob_glob env ''*.bin'' \<noteq> []"
  shows "\<exists>call dir. setup_calls (setup_py env) = [call] \<and>
           option_of call ''bdist_msi'' ''initial_target_dir'' = Some (PyStr dir) \<and>
           dir = ''[ProgramFilesFolder]'' @ CHR 0x5C # ''Zubax'' @ CHR 0x5C # ''serial_updater'' \<and>
           take 20 dir = ''[ProgramFilesFolder]'' \<and> length dir = 41"
proof -
  let ?call = "setup_kwargs (base (sys_platform env))
                 (build_exe_options (glob_glob env ''*.bin'')) bdist_msi_options"
  let ?dir = "''[ProgramFilesFolder]'' @ CHR 0x5C # ''Zubax'' @ CHR 0x5C # ''serial_updater''"
  have c: "setup_calls (setup_py env) = [?call]"
    by (simp add: setup_py_nonempty [OF assms])
  have d: "option_of ?call ''bdist_msi'' ''initial_target_dir'' = Some (PyStr ?dir)"
    by (simp add: option_of_bdist_msi bdist_msi_options_def)
  have t: "take 20 ?dir = ''[ProgramFilesFolder]''" by simp
  have l: "length ?dir = 41" by simp
  from c d t l show ?thesis by blast
qed

theorem initial_target_dir_is_vendor_path_witness:
  "glob_glob (dir_with ''linux'' [''fw.bin'']) ''*.bin'' \<noteq> [] \<and>
   (\<exists>call dir. setup_calls (setup_py (dir_with ''linux'' [''fw.bin''])) = [call] \<and>
      option_of call ''bdist_msi'' ''initial_target_dir'' = Some (PyStr dir) \<and>
      dir = ''[ProgramFilesFolder]'' @ CHR 0x5C # ''Zubax'' @ CHR 0x5C # ''serial_updater'' \<and>
      take 20 dir = ''[ProgramFilesFolder]'' \<and> length dir = 41)"
proof -
  have ne: "glob_glob (dir_with ''linux'' [''fw.bin'']) ''*.bin'' \<noteq> []"
    by (simp add: glob_dir_with)
  from ne initial_target_dir_is_vendor_path [OF ne] show ?thesis by (rule conjI)
qed

text \<open>
  C8. The build options set \<open>include_msvcr\<close> to \<open>True\<close> for every payload list, and so
  in every call of \<open>setup\<close> on every platform: the flag does not depend on the test of
  \<open>sys.platform\<close> that selects \<open>base\<close>.
\<close>

theorem include_msvcr_always_true:
  "build_exe_options bins ''include_msvcr'' = Some (PyBool True) \<and>
   (\<forall>call \<in> set (setup_calls (setup_py env)).
      option_of call ''build_exe'' ''include_msvcr'' = Some (PyBool True))"
proof (cases "glob_glob env ''*.bin'' = []")
  case True
  then show ?thesis by (simp add: setup_py_empty build_exe_options_def)
next
  case False
  then show ?thesis
    by (simp add: setup_py_nonempty option_of_build_exe build_exe_options_def)
qed

theorem include_msvcr_always_true_witness:
  "base (sys_platform (dir_with ''linux'' [''fw.bin''])) = None \<and>
   setup_calls (setup_py (dir_with ''linux'' [''fw.bin''])) \<noteq> [] \<and>
   option_of (hd (setup_calls (setup_py (dir_with ''linux'' [''fw.bin''])))) ''build_exe''
     ''include_msvcr'' = Some (PyBool True)"
proof -
  have b: "base (sys_platform (dir_with ''linux'' [''fw.bin''])) = None"
    by (simp add: base_def dir_with_def)
  have n: "setup_calls (setup_py (dir_with ''linux'' [''fw.bin''])) \<noteq> []"
    by (simp add: setup_py_def binaries_def dir_with_def)
  then have m: "hd (setup_calls (setup_py (dir_with ''linux'' [''fw.bin''])))
      \<in> set (setup_calls (setup_py (dir_with ''linux'' [''fw.bin''])))"
    by (rule hd_in_set)
  note every = include_msvcr_always_true [of _ "dir_with ''linux'' [''fw.bin'']", THEN conjunct2]
  from b n bspec [OF every m] show ?thesis by (intro conjI)
qed

text \<open>
  C9. In the call of \<open>setup\<close>, \<open>requires\<close> is the one-element list \<open>['serial']\<close>:
  \<open>'tkinter'\<close> is in the build options' \<open>packages\<close> list and not in \<open>requires\<close>.
\<close>

theorem requires_is_serial_only:
  assumes "glob_glob env ''*.bin'' \<noteq> []"
  shows "\<exists>call pk. setup_calls (setup_py env) = [call] \<and>
           requires call = [''serial''] \<and> ''tkinter'' \<notin> set (requires call) \<and>
           option_of call ''build_exe'' ''packages'' = Some (PyList pk) \<and> ''tkinter'' \<in> set pk"
proof -
  let ?call = "setup_kwargs (base (sys_platform env))
                 (build_exe_options (glob_glob env ''*.bin'')) bdist_msi_options"
  have c: "setup_calls (setup_py env) = [?call]"
    by (simp add: setup_py_nonempty [OF assms])
  have r: "requires ?call = [''serial'']"
    by (simp add: setup_kwargs_def)
  then have t: "''tkinter'' \<notin> set (requires ?call)"
    by simp
  have p: "option_of ?call ''build_exe'' ''packages'' = Some (PyList [''serial'', ''tkinter''])"
    by (simp add: option_of_build_exe build_exe_options_def)
  have i: "''tkinter'' \<in> set [''serial'', ''tkinter'']" by simp
  from c r t p i show ?thesis by blast
qed

theorem requires_is_serial_only_witness:
  "glob_glob (dir_with ''win32'' [''fw.bin'']) ''*.bin'' \<noteq> [] \<and>
   (\<exists>call pk. setup_calls (setup_py (dir_with ''win32'' [''fw.bin''])) = [call] \<and>
      requires call = [''serial''] \<and> ''tkinter'' \<notin> set (requires call) \<and>
      option_of call ''build_exe'' ''packages'' = Some (PyList pk) \<and> ''tkinter'' \<in> set pk)"
proof -
  have ne: "glob_glob (dir_with ''win32'' [''fw.bin'']) ''*.bin'' \<noteq> []"
    by (simp add: glob_dir_with)
  from ne requires_is_serial_only [OF ne] show ?thesis by (rule conjI)
qed

text \<open>
  C10. In the call of \<open>setup\<close>, \<open>executables\<close> is a list of one \<open>Executable\<close>: script
  \<open>'zubax_serial_updater'\<close>, icon \<open>'icon.ico'\<close>, shortcut name
  \<open>'Zubax Serial Updater'\<close>, shortcut directory \<open>'ProgramMenuFolder'\<close>, and as base the
  subsystem tag selected from \<open>sys.platform\<close>.
\<close>

theorem one_executable_with_fixed_fields:
  assumes "glob_glob env ''*.bin'' \<noteq> []"
  shows "\<exists>call. setup_calls (setup_py env) = [call] \<and>
           executables call =
             [\<lparr>exe_script = ''zubax_serial_updater'',
               exe_base = base (sys_platform env),
               exe_icon = ''icon.ico'',
               exe_shortcutName = ''Zubax Serial Updater'',
               exe_shortcutDir = ''ProgramMenuFolder''\<rparr>]"
  by (simp add: setup_py_nonempty [OF assms] setup_kwargs_def)

theorem one_executable_with_fixed_fields_witness:
  "glob_glob (dir_with ''win32'' [''fw.bin'']) ''*.bin'' \<noteq> [] \<and>
   (\<exists>call. setup_calls (setup_py (dir_with ''win32'' [''fw.bin''])) = [call] \<and>
      executables call =
        [\<lparr>exe_script = ''zubax_serial_updater'',
          exe_base = Some ''Win32GUI'',
          exe_icon = ''icon.ico'',
          exe_shortcutName = ''Zubax Serial Updater'',
          exe_shortcutDir = ''ProgramMenuFolder''\<rparr>])"
proof -
  have ne: "glob_glob (dir_with ''win32'' [''fw.bin'']) ''*.bin'' \<noteq> []"
    by (simp add: glob_dir_with)
  have b: "base (sys_platform (dir_with ''win32'' [''fw.bin''])) = Some ''Win32GUI''"
    by (simp add: base_def dir_with_def)
  from ne one_executable_with_fixed_fields [OF ne] show ?thesis
    unfolding b by (rule conjI)
qed

end
